theory Spec2Isabelle
  imports Complex_Main
begin

section \<open>Data model\<close>

text \<open>
  The errors the filters raise. \<open>ValueError\<close> and \<open>KeyError\<close> carry the message the source
  builds; \<open>IndexError\<close> is what indexing an empty array or list raises; \<open>AttributeError\<close>
  is what calling a method that the receiver does not have raises.
\<close>

datatype error = ValueError string | KeyError string | IndexError | AttributeError

text \<open>A sequence type is described by its gap characters (\<open>sequence_dtype.gap_chars\<close>).\<close>

record dtype =
  gap_chars :: "char list"

definition DNA :: dtype where
  "DNA = \<lparr>gap_chars = ''-.''\<rparr>"

text \<open>
  A sequence: its characters and its metadata. The filters read \<open>metadata['id']\<close>, which
  every sequence they are given carries.
\<close>

record sequence =
  seq_chars :: string
  seq_id :: string
  seq_description :: string

text \<open>
  An alignment is a table of sequences with one index label per sequence. A freshly built
  alignment is labelled by position (\<open>IntLabel\<close>); \<open>reassign_index\<close> relabels it by
  sequence identifier (\<open>StrLabel\<close>).
\<close>

datatype label = IntLabel nat | StrLabel string

record alignment =
  msa_seqs :: "sequence list"
  msa_index :: "label list"
  msa_dtype :: dtype

text \<open>\<open>alignment.shape.position\<close>: the number of columns, zero when there is no sequence.\<close>

definition position :: "alignment \<Rightarrow> nat" where
  "position a = (case msa_seqs a of [] \<Rightarrow> 0 | s # _ \<Rightarrow> length (seq_chars s))"

text \<open>The invariant of an alignment: every sequence has as many characters as there are columns.\<close>

definition well_formed :: "alignment \<Rightarrow> bool" where
  "well_formed a = list_all (\<lambda>s. length (seq_chars s) = position a) (msa_seqs a)"

text \<open>\<open>seq.gaps()\<close>: for each character, whether it is a gap character.\<close>

definition gaps :: "dtype \<Rightarrow> string \<Rightarrow> bool list" where
  "gaps d cs = map (\<lambda>c. c \<in> set (gap_chars d)) cs"

section \<open>Formatting of integers\<close>

definition digit :: "nat \<Rightarrow> char" where
  "digit n = ''0123456789'' ! n"

fun str_nat :: "nat \<Rightarrow> string" where
  "str_nat n = (if n < 10 then [digit n] else str_nat (n div 10) @ [digit (n mod 10)])"

declare str_nat.simps [simp del]

definition str_int :: "int \<Rightarrow> string" where
  "str_int i = (if i < 0 then CHR ''-'' # str_nat (nat (- i)) else str_nat (nat i))"

section \<open>filter_positions\<close>

text \<open>
  \<open>alignment.reassign_index(minter='id')\<close> relabels the alignment it is called on, in place,
  with the identifier of each sequence.
\<close>

definition reassign_index :: "alignment \<Rightarrow> alignment" where
  "reassign_index a = a\<lparr>msa_index := map (\<lambda>s. StrLabel (seq_id s)) (msa_seqs a)\<rparr>"

text \<open>
  \<open>~alignment.loc[reference_id].gaps()\<close> inside the source's \<open>try\<close>: a label that matches no
  sequence raises the \<open>KeyError\<close> the source re-raises with its own message; a label that
  matches exactly one sequence gives that sequence, whose non-gap positions are returned; a
  label that matches several gives a sub-alignment, which has no \<open>gaps\<close> method.
\<close>

definition loc_non_gaps :: "alignment \<Rightarrow> string \<Rightarrow> error + bool list" where
  "loc_non_gaps a reference_id =
     (case filter (\<lambda>p. fst p = StrLabel reference_id) (zip (msa_index a) (msa_seqs a)) of
        [] \<Rightarrow> Inl (KeyError (reference_id @ '' not found in alignment.''))
      | [p] \<Rightarrow> Inr (map Not (gaps (msa_dtype a) (seq_chars (snd p))))
      | _ \<Rightarrow> Inl AttributeError)"

text \<open>
  The reference array: \<open>-1\<close> at every column, then \<open>0, 1, 2, ...\<close> written at the columns
  where the reference has no gap. It has one entry per column of the alignment, and the
  reference, like every sequence of an alignment, has one character per column.
\<close>

fun reference_array :: "bool list \<Rightarrow> int \<Rightarrow> int list" where
  "reference_array [] k = []"
| "reference_array (b # bs) k =
     (if b then k # reference_array bs (k + 1) else (- 1) # reference_array bs k)"

text \<open>\<open>np.argwhere(xs == v)[0][0]\<close>: the first index holding \<open>v\<close>, an \<open>IndexError\<close> if none does.\<close>

definition argwhere :: "int list \<Rightarrow> int \<Rightarrow> nat list" where
  "argwhere xs v = filter (\<lambda>i. xs ! i = v) [0..<length xs]"

definition argwhere_first :: "int list \<Rightarrow> int \<Rightarrow> error + nat" where
  "argwhere_first xs v = (case argwhere xs v of [] \<Rightarrow> Inl IndexError | i # _ \<Rightarrow> Inr i)"

text \<open>\<open>alignment[:, k:]\<close>: a new alignment without the first \<open>k\<close> columns.\<close>

definition slice_from :: "alignment \<Rightarrow> nat \<Rightarrow> alignment" where
  "slice_from a k = a\<lparr>msa_seqs := map (\<lambda>s. s\<lparr>seq_chars := drop k (seq_chars s)\<rparr>) (msa_seqs a)\<rparr>"

text \<open>
  \<open>filter_positions\<close> writes to the alignment it is given (\<open>reassign_index\<close>), so the model
  returns a pair: the caller's alignment as it is after the call, and the value returned or
  the error raised. In the branch for \<open>end\<close> below the reference's ungapped length the source
  computes \<open>aln_end\<close> and then returns \<open>alignment\<close>, which is still the caller's object.
\<close>

definition filter_positions ::
  "alignment \<Rightarrow> string \<Rightarrow> int \<Rightarrow> int \<Rightarrow> alignment \<times> (error + alignment)" where
  "filter_positions alignment reference_id start0 end =
     (let start = start0 - 1 in
      if end < start then (alignment, Inl (ValueError ''end must be greater than start''))
      else
        (let alignment = reassign_index alignment in
         (case loc_non_gaps alignment reference_id of
            Inl e \<Rightarrow> (alignment, Inl e)
          | Inr non_gaps \<Rightarrow>
              (let count_non_gaps = int (length (filter id non_gaps)) in
               if end > count_non_gaps then
                 (alignment, Inl (ValueError (''end position ('' @ str_int end @
                    '') is larger than the length of the reference sequence ('' @
                    str_int count_non_gaps @ '')'')))
               else
                 (let ref = reference_array non_gaps 0 in
                  (case argwhere_first ref start of
                     Inl e \<Rightarrow> (alignment, Inl e)
                   | Inr aln_start \<Rightarrow>
                       if end = count_non_gaps
                       then (alignment, Inr (slice_from alignment aln_start))
                       else
                         (case argwhere_first ref end of
                            Inl e \<Rightarrow> (alignment, Inl e)
                          | Inr aln_end \<Rightarrow> (alignment, Inr alignment))))))))"

text \<open>The alignment of the repository's test \<open>test_retain_full_reference\<close>.\<close>

definition example_seqs :: "sequence list" where
  "example_seqs =
     [\<lparr>seq_chars = ''CCA-T-AGA'', seq_id = ''s1'', seq_description = ''''\<rparr>,
      \<lparr>seq_chars = ''T---T-ATA'', seq_id = ''s2'', seq_description = ''''\<rparr>,
      \<lparr>seq_chars = ''---GTTATA'', seq_id = ''s3'', seq_description = ''''\<rparr>]"

definition example_alignment :: alignment where
  "example_alignment =
     \<lparr>msa_seqs = example_seqs, msa_index = [IntLabel 0, IntLabel 1, IntLabel 2], msa_dtype = DNA\<rparr>"

text \<open>
  The number of non-gap characters of a sequence: its length in ungapped coordinates.
\<close>

definition ungapped_length :: "dtype \<Rightarrow> sequence \<Rightarrow> nat" where
  "ungapped_length d s = length (filter (\<lambda>c. c \<notin> set (gap_chars d)) (seq_chars s))"

section \<open>Floating-point values\<close>

text \<open>
  The source computes with numpy floats. Finite values are modelled by exact rationals, so
  rounding is not part of the model. Division is numpy's: dividing by zero does not raise,
  it gives an infinity or, for \<open>0 / 0\<close>, the value \<open>nan\<close>, and every comparison with
  \<open>nan\<close> is false.
\<close>

datatype npfloat = Fin rat | PInf | NInf | NaN

definition np_div :: "rat \<Rightarrow> rat \<Rightarrow> npfloat" where
  "np_div a b =
     (if b \<noteq> 0 then Fin (a / b) else if 0 < a then PInf else if a < 0 then NInf else NaN)"

fun np_ge :: "npfloat \<Rightarrow> rat \<Rightarrow> bool" where
  "np_ge (Fin x) t = (t \<le> x)"
| "np_ge PInf t = True"
| "np_ge NInf t = False"
| "np_ge NaN t = False"

fun np_le :: "npfloat \<Rightarrow> rat \<Rightarrow> bool" where
  "np_le (Fin x) t = (x \<le> t)"
| "np_le PInf t = False"
| "np_le NInf t = True"
| "np_le NaN t = False"

fun np_gt :: "npfloat \<Rightarrow> rat \<Rightarrow> bool" where
  "np_gt (Fin x) t = (t < x)"
| "np_gt PInf t = True"
| "np_gt NInf t = False"
| "np_gt NaN t = False"

text \<open>
  Fixed-point formatting with \<open>d\<close> decimals (\<open>%f\<close> is \<open>d = 6\<close>), rounding the exact value
  half to even, and the percent format \<open>{:.2%}\<close>, which formats a hundred times its
  argument with two decimals and appends the percent sign.
\<close>

definition round_half_even :: "rat \<Rightarrow> int" where
  "round_half_even y =
     (let f = \<lfloor>y\<rfloor>; r = y - of_int f in
      if r < 1 / 2 then f else if 1 / 2 < r then f + 1 else if even f then f else f + 1)"

definition pad_zeros :: "nat \<Rightarrow> string \<Rightarrow> string" where
  "pad_zeros w s = replicate (w - length s) (CHR ''0'') @ s"

definition format_fixed :: "nat \<Rightarrow> rat \<Rightarrow> string" where
  "format_fixed d x =
     (let n = nat (round_half_even (\<bar>x\<bar> * 10 ^ d));
          body = str_nat (n div 10 ^ d) @ ''.'' @ pad_zeros d (str_nat (n mod 10 ^ d))
      in if x < 0 then CHR ''-'' # body else body)"

definition format_percent :: "rat \<Rightarrow> string" where
  "format_percent x = format_fixed 2 (x * 100) @ ''%''"

section \<open>Frequency vectors and the two masks\<close>

text \<open>
  A frequency vector is a dictionary from characters to frequencies, kept as the list of
  its items. \<open>dict_del\<close> is \<open>del f[k]\<close> guarded by \<open>k in f\<close>, \<open>dict_get\<close> is \<open>f.get(k, d)\<close>.
\<close>

type_synonym frequency_vector = "(char \<times> rat) list"

definition dict_del :: "char \<Rightarrow> frequency_vector \<Rightarrow> frequency_vector" where
  "dict_del k f = filter (\<lambda>p. fst p \<noteq> k) f"

definition dict_get :: "frequency_vector \<Rightarrow> char \<Rightarrow> rat \<Rightarrow> rat" where
  "dict_get f k d = (case map_of f k of None \<Rightarrow> d | Some v \<Rightarrow> v)"

text \<open>The inner loop of \<open>_most_conserved\<close>: every gap character is deleted from the vector.\<close>

definition remove_gaps :: "dtype \<Rightarrow> frequency_vector \<Rightarrow> frequency_vector" where
  "remove_gaps d f = fold dict_del (gap_chars d) f"

text \<open>What \<open>_most_conserved\<close> appends for a vector whose gaps have been deleted.\<close>

definition conserved_fraction :: "frequency_vector \<Rightarrow> npfloat" where
  "conserved_fraction f =
     (case map snd f of
        [] \<Rightarrow> Fin 0
      | v # vs \<Rightarrow> np_div (fold max vs v) (sum_list (v # vs)))"

text \<open>
  \<open>_most_conserved\<close> deletes the gap entries from the vectors it is given, so the model
  returns the vectors as they are after the call together with the result list.
\<close>

definition most_conserved ::
  "frequency_vector list \<Rightarrow> dtype \<Rightarrow> string \<Rightarrow> error + (frequency_vector list \<times> npfloat list)" where
  "most_conserved frequencies sequence_dtype gap_mode =
     (if gap_mode \<noteq> ''ignore'' then
        Inl (ValueError (''Unknown gap_mode: '' @ gap_mode @
               ''. ignore is currently the only supported gap_mode.''))
      else
        (let frequencies = map (remove_gaps sequence_dtype) frequencies
         in Inr (frequencies, map conserved_fraction frequencies)))"

definition compute_conservation_mask ::
  "frequency_vector list \<Rightarrow> dtype \<Rightarrow> rat \<Rightarrow> error + (frequency_vector list \<times> bool list)" where
  "compute_conservation_mask frequencies sequence_dtype min_conservation =
     (case most_conserved frequencies sequence_dtype ''ignore'' of
        Inl e \<Rightarrow> Inl e
      | Inr r \<Rightarrow> Inr (fst r, map (\<lambda>c. np_ge c min_conservation) (snd r)))"

definition compute_gap_mask ::
  "frequency_vector list \<Rightarrow> dtype \<Rightarrow> rat \<Rightarrow> error + bool list" where
  "compute_gap_mask frequencies sequence_dtype max_gap_frequency =
     (case frequencies of
        [] \<Rightarrow> Inl IndexError
      | f0 # _ \<Rightarrow>
          (let num_sequences = sum_list (map snd f0);
               gap_frequencies =
                 map (\<lambda>f. np_div (sum_list (map (\<lambda>gc. dict_get f gc 0) (gap_chars sequence_dtype)))
                             num_sequences) frequencies
           in Inr (map (\<lambda>f. np_le f max_gap_frequency) gap_frequencies)))"


section \<open>mask\<close>

text \<open>Boolean-array indexing: the elements of \<open>xs\<close> at the positions where the mask is true.\<close>

definition select :: "bool list \<Rightarrow> 'a list \<Rightarrow> 'a list" where
  "select m xs = map snd (filter fst (zip m xs))"

definition apply_mask :: "alignment \<Rightarrow> bool list \<Rightarrow> alignment" where
  "apply_mask a m = a\<lparr>msa_seqs := map (\<lambda>s. s\<lparr>seq_chars := select m (seq_chars s)\<rparr>) (msa_seqs a)\<rparr>"

text \<open>
  \<open>alignment.iter_positions()\<close> yields the columns; \<open>frequencies()\<close> of a column maps each
  character that occurs in it to the number of its occurrences, in character-code order.
\<close>

definition column :: "alignment \<Rightarrow> nat \<Rightarrow> string" where
  "column a i = map (\<lambda>s. seq_chars s ! i) (msa_seqs a)"

definition char_frequencies :: "string \<Rightarrow> frequency_vector" where
  "char_frequencies cs =
     map (\<lambda>c. (c, of_nat (count_list cs c))) (sort_key (of_char :: char \<Rightarrow> nat) (remdups cs))"

definition compute_frequencies :: "alignment \<Rightarrow> frequency_vector list" where
  "compute_frequencies a = map (\<lambda>i. char_frequencies (column a i)) [0..<position a]"

definition no_positions_message :: "string \<Rightarrow> string \<Rightarrow> string" where
  "no_positions_message str_passed_gap str_passed_conservation =
     ''No alignment positions remain after filtering. The filter thresholds will need to be relaxed. ''
     @ str_passed_gap @ '' of positions were retained by the gap filter, and ''
     @ str_passed_conservation @ '' of positions were retained by the conservation filter.''"

definition mask :: "alignment \<Rightarrow> rat \<Rightarrow> rat \<Rightarrow> error + alignment" where
  "mask alignment max_gap_frequency min_conservation =
     (if max_gap_frequency < 0 \<or> 1 < max_gap_frequency then
        Inl (ValueError (''max_gap_frequency out of range [0.0, 1.0]: '' @
               format_fixed 6 max_gap_frequency))
      else if min_conservation < 0 \<or> 1 < min_conservation then
        Inl (ValueError (''min_conservation out of range [0.0, 1.0]: '' @
               format_fixed 6 min_conservation))
      else if position alignment = 0 then
        Inl (ValueError (''Input alignment is empty (i.e., there are zero '' @
               ''sequences or positions in the input alignment).''))
      else
        (let frequencies = compute_frequencies alignment;
             sequence_dtype = msa_dtype alignment
         in (case compute_gap_mask frequencies sequence_dtype max_gap_frequency of
               Inl e \<Rightarrow> Inl e
             | Inr gap_mask \<Rightarrow>
                 (case compute_conservation_mask frequencies sequence_dtype min_conservation of
                    Inl e \<Rightarrow> Inl e
                  | Inr r \<Rightarrow>
                      (let conservation_mask = snd r;
                           combined_mask = map2 (\<and>) gap_mask conservation_mask;
                           result = apply_mask alignment combined_mask
                       in if position result = 0 then
                            (let num_input_positions = position alignment;
                                 frac_passed_gap =
                                   of_nat (length (filter id gap_mask)) / of_nat num_input_positions;
                                 frac_passed_conservation =
                                   of_nat (length (filter id conservation_mask)) /
                                   of_nat num_input_positions
                             in Inl (ValueError (no_positions_message
                                  (format_percent frac_passed_gap)
                                  (format_percent frac_passed_conservation))))
                          else Inr result)))))"


text \<open>The alignment of the repository's test \<open>MaskTests.test_basic\<close>.\<close>

definition basic_example :: alignment where
  "basic_example =
     \<lparr>msa_seqs =
        [\<lparr>seq_chars = ''AGA'', seq_id = ''seq1'', seq_description = ''''\<rparr>,
         \<lparr>seq_chars = ''-GA'', seq_id = ''seq2'', seq_description = ''''\<rparr>,
         \<lparr>seq_chars = ''-GC'', seq_id = ''seq3'', seq_description = ''''\<rparr>],
      msa_index = [IntLabel 0, IntLabel 1, IntLabel 2], msa_dtype = DNA\<rparr>"

text \<open>The alignment that \<open>MaskTests.test_basic\<close> expects.\<close>

definition basic_expected :: alignment where
  "basic_expected =
     \<lparr>msa_seqs =
        [\<lparr>seq_chars = ''GA'', seq_id = ''seq1'', seq_description = ''''\<rparr>,
         \<lparr>seq_chars = ''GA'', seq_id = ''seq2'', seq_description = ''''\<rparr>,
         \<lparr>seq_chars = ''GC'', seq_id = ''seq3'', seq_description = ''''\<rparr>],
      msa_index = [IntLabel 0, IntLabel 1, IntLabel 2], msa_dtype = DNA\<rparr>"

section \<open>filter_seqs\<close>

text \<open>
  \<open>result[key] = value\<close> on the result collection: the value of a key that is already
  present is replaced where it stands, a new key is added at the end.
\<close>

fun series_set :: "('k \<times> 'v) list \<Rightarrow> 'k \<Rightarrow> 'v \<Rightarrow> ('k \<times> 'v) list" where
  "series_set [] k v = [(k, v)]"
| "series_set (p # r) k v = (if fst p = k then (k, v) # r else p # series_set r k v)"

text \<open>
  The body of the loop of \<open>filter_seqs\<close> up to the assignment: false when one of the three
  \<open>continue\<close> statements is reached. The sequences are DNA sequences.
\<close>

definition retained :: "rat \<Rightarrow> rat \<Rightarrow> int \<Rightarrow> int option \<Rightarrow> sequence \<Rightarrow> bool" where
  "retained max_gap_frequency max_n_frequency min_length max_length seq =
     (let seq_len = int (length (seq_chars seq)) in
      if seq_len < min_length \<or> (case max_length of None \<Rightarrow> False | Some m \<Rightarrow> m < seq_len)
      then False
      else
        (let gap_count = length (filter id (gaps DNA (seq_chars seq)));
             frac_gap = np_div (of_nat gap_count) (of_int seq_len)
         in if np_gt frac_gap max_gap_frequency then False
            else
              (let degapped_seq = filter (\<lambda>c. c \<notin> set (gap_chars DNA)) (seq_chars seq);
                   frac_n = np_div (of_nat (count_list degapped_seq (CHR ''N'')))
                                   (of_nat (length degapped_seq))
               in if np_gt frac_n max_n_frequency then False else True)))"

definition filter_seqs ::
  "sequence list \<Rightarrow> rat \<Rightarrow> rat \<Rightarrow> int \<Rightarrow> int option \<Rightarrow> (string \<times> sequence) list" where
  "filter_seqs seqs max_gap_frequency max_n_frequency min_length max_length =
     fold (\<lambda>seq result.
             if retained max_gap_frequency max_n_frequency min_length max_length seq
             then series_set result (seq_id seq) seq else result)
          seqs []"

text \<open>A sequence without characters, and a small stream of sequences.\<close>

definition seq_empty :: sequence where
  "seq_empty = \<lparr>seq_chars = '''', seq_id = ''e'', seq_description = ''''\<rparr>"


section \<open>The properties as the specification words them\<close>




text \<open>
  The first \<open>n\<close> columns of a table given by its rows, and the per-column tests of the two
  masks; \<open>compute_frequencies\<close>, \<open>compute_gap_mask\<close> and \<open>compute_conservation_mask\<close> are
  expressed through them in the proofs.
\<close>

definition cols :: "nat \<Rightarrow> 'a list list \<Rightarrow> 'a list list" where
  "cols n rows = map (\<lambda>i. map (\<lambda>r. r ! i) rows) [0..<n]"

definition gap_ok :: "dtype \<Rightarrow> rat \<Rightarrow> rat \<Rightarrow> frequency_vector \<Rightarrow> bool" where
  "gap_ok d max_gap_frequency num_sequences f =
     np_le (np_div (sum_list (map (\<lambda>gc. dict_get f gc 0) (gap_chars d))) num_sequences)
       max_gap_frequency"

definition conservation_ok :: "dtype \<Rightarrow> rat \<Rightarrow> frequency_vector \<Rightarrow> bool" where
  "conservation_ok d min_conservation f =
     np_ge (conserved_fraction (remove_gaps d f)) min_conservation"

text \<open>The combined mask of \<open>mask\<close>, column by column.\<close>

definition combined_mask :: "alignment \<Rightarrow> rat \<Rightarrow> rat \<Rightarrow> bool list" where
  "combined_mask a g c =
     (let F = compute_frequencies a in
      map (\<lambda>f. gap_ok (msa_dtype a) g (sum_list (map snd (hd F))) f \<and>
               conservation_ok (msa_dtype a) c f) F)"


section \<open>Properties of filter_positions\<close>

lemma reference_array_range:
  "x \<in> set (reference_array bs k) \<Longrightarrow>
     x = - 1 \<or> (k \<le> x \<and> x < k + int (length (filter id bs)))"
  by (induction bs arbitrary: k) (fastforce split: if_splits)+

lemma argwhere_first_absent:
  assumes "v \<notin> set xs"
  shows "argwhere_first xs v = Inl IndexError"
proof -
  have "filter (\<lambda>i. xs ! i = v) [0..<length xs] = []"
    using assms by (auto simp: filter_empty_conv)
  then show ?thesis
    by (simp add: argwhere_first_def argwhere_def)
qed

lemma argwhere_first_error: "argwhere_first xs v = Inl e \<Longrightarrow> e = IndexError"
  by (auto simp: argwhere_first_def split: list.splits)

lemma loc_non_gaps_error:
  "loc_non_gaps a r = Inl e \<Longrightarrow>
     e = KeyError (r @ '' not found in alignment.'') \<or> e = AttributeError"
  by (auto simp: loc_non_gaps_def split: list.splits)

lemma zip_index_filter:
  "filter (\<lambda>p. fst p = StrLabel r) (zip (map (\<lambda>s. StrLabel (seq_id s)) xs) xs) =
     map (\<lambda>s. (StrLabel (seq_id s), s)) (filter (\<lambda>s. seq_id s = r) xs)"
  by (induction xs) auto

lemma loc_non_gaps_unique:
  assumes "filter (\<lambda>s. seq_id s = r) (msa_seqs a) = [s]"
  shows "loc_non_gaps (reassign_index a) r = Inr (map Not (gaps (msa_dtype a) (seq_chars s)))"
  using assms by (simp add: loc_non_gaps_def reassign_index_def zip_index_filter)

text \<open>
  The start/end check of \<open>filter_positions\<close> raises exactly when \<open>end\<close> is below the
  converted start, that is when \<open>end < start - 1\<close> for the 1-based \<open>start\<close>.
\<close>

lemma filter_positions_end_check:
  "snd (filter_positions a r s e) = Inl (ValueError ''end must be greater than start'')
     \<longleftrightarrow> e < s - 1"
  by (auto simp add: filter_positions_def Let_def split: sum.splits
      dest: argwhere_first_error loc_non_gaps_error)

text \<open>
  The second scenario of \<open>test_retain_full_reference\<close>: with \<open>end\<close> equal to the ungapped
  length of the reference the alignment is cut from the start column to its last column.
\<close>

lemma filter_positions_example_full_reference:
  "map_sum id (\<lambda>b. map seq_chars (msa_seqs b))
     (snd (filter_positions example_alignment ''s3'' 1 6)) =
   Inr [''-T-AGA'', ''-T-ATA'', ''GTTATA'']"
  by code_simp

text \<open>
  Claim C1, at the input where the code departs from it. With reference \<open>s3\<close>, start 1 and
  end 5 (below the ungapped length 6 of \<open>s3\<close>) the columns mapped to the positions 1 to 5
  are the columns 3 to 7, so the claim asks for \<open>-T-AG\<close>, \<open>-T-AT\<close>, \<open>GTTAT\<close>. The code
  computes \<open>aln_end\<close> and returns all nine columns.
\<close>

theorem filter_positions_end_below_length_keeps_all_columns:
  "map_sum id (\<lambda>b. map seq_chars (msa_seqs b))
     (snd (filter_positions example_alignment ''s3'' 1 5)) =
   Inr [''CCA-T-AGA'', ''T---T-ATA'', ''---GTTATA'']"
  by code_simp

text \<open>
  Claim C3, at the input where the code departs from it: start 3 and end 2 on the test
  alignment. The end is below the 1-based start, and the call does not fail: the check
  compares the end with the start already decreased by one, so it lets \<open>end = start - 1\<close>
  through, and the whole alignment is returned.
\<close>

theorem filter_positions_end_one_below_start_accepted:
  "snd (filter_positions example_alignment ''s3'' 3 2) = Inr (reassign_index example_alignment)"
  by code_simp

text \<open>
  Claim C4: when the reference identifier names exactly one sequence, the call with
  \<open>end\<close> equal to the reference's ungapped length and \<open>start\<close> one above it passes the
  start/end check, the lookup of the reference and the check of \<open>end\<close> against the ungapped
  length, and then fails with an \<open>IndexError\<close>, because no column is mapped to the
  converted start.
\<close>

theorem filter_positions_start_past_reference_index_error:
  assumes "filter (\<lambda>x. seq_id x = r) (msa_seqs a) = [s]"
  shows "snd (filter_positions a r (int (ungapped_length (msa_dtype a) s) + 1)
                (int (ungapped_length (msa_dtype a) s))) = Inl IndexError"
proof -
  let ?ng = "map Not (gaps (msa_dtype a) (seq_chars s))"
  let ?n = "int (ungapped_length (msa_dtype a) s)"
  have n: "int (length (filter id ?ng)) = ?n"
    by (simp add: ungapped_length_def gaps_def filter_map comp_def)
  have "?n \<notin> set (reference_array ?ng 0)"
    using reference_array_range [of ?n ?ng 0] n by auto
  then have "argwhere_first (reference_array ?ng 0) ?n = Inl IndexError"
    by (rule argwhere_first_absent)
  then show ?thesis
    using n by (simp add: filter_positions_def loc_non_gaps_unique [OF assms] Let_def)
qed

theorem filter_positions_start_past_reference_index_error_witness:
  "filter (\<lambda>x. seq_id x = ''s3'') (msa_seqs example_alignment) = [example_seqs ! 2] \<and>
   snd (filter_positions example_alignment ''s3'' 7 6) = Inl IndexError"
proof -
  have h: "filter (\<lambda>x. seq_id x = ''s3'') (msa_seqs example_alignment) = [example_seqs ! 2]"
    by (simp add: example_alignment_def example_seqs_def)
  have u: "ungapped_length (msa_dtype example_alignment) (example_seqs ! 2) = 6"
    by (simp add: ungapped_length_def example_alignment_def example_seqs_def DNA_def)
  show ?thesis
    using h filter_positions_start_past_reference_index_error [OF h] u by simp
qed

section \<open>Properties of the two masks\<close>
















section \<open>Properties of mask\<close>

lemma select_simps [simp]:
  "select [] xs = []"
  "select m [] = []"
  "select (b # m) (x # xs) = (if b then x # select m xs else select m xs)"
  by (simp_all add: select_def)

lemma length_select:
  "length m = length xs \<Longrightarrow> length (select m xs) = length (filter id m)"
  by (induction m xs rule: list_induct2) auto

lemma select_map: "select m (map f xs) = map f (select m xs)"
proof (induction m arbitrary: xs)
  case Nil
  show ?case by simp
next
  case (Cons b m)
  then show ?case by (cases xs) auto
qed

lemma select_pred: "select (map P xs) xs = filter P xs"
  by (induction xs) auto

lemma select_all_true:
  "length m = length xs \<Longrightarrow> \<forall>b\<in>set m. b \<Longrightarrow> select m xs = xs"
  by (induction m xs rule: list_induct2) auto

lemma cols_0 [simp]: "cols 0 rows = []"
  by (simp add: cols_def)

lemma length_cols [simp]: "length (cols n rows) = n"
  by (simp add: cols_def)

lemma cols_Suc:
  assumes "\<forall>r\<in>set rows. r \<noteq> []"
  shows "cols (Suc n) rows = map hd rows # cols n (map tl rows)"
proof -
  have u: "[0..<Suc n] = 0 # map Suc [0..<n]"
    by (simp only: map_Suc_upt upt_conv_Cons [of 0 "Suc n"] zero_less_Suc)
  have h0: "map (\<lambda>r. r ! 0) rows = map hd rows"
    using assms by (auto simp: hd_conv_nth)
  have hS: "map (\<lambda>r. r ! Suc i) rows = map (\<lambda>r. r ! i) (map tl rows)" for i
  proof -
    have "r ! Suc i = tl r ! i" if "r \<in> set rows" for r :: "'a list"
      using assms that by (cases r) auto
    then show ?thesis by simp
  qed
  show ?thesis
    unfolding cols_def u by (simp add: h0 hS comp_def del: upt_Suc)
qed

lemma cols_select:
  assumes "\<forall>r\<in>set rows. length r = length m"
  shows "cols (length (filter id m)) (map (select m) rows) = select m (cols (length m) rows)"
  using assms
proof (induction m arbitrary: rows)
  case Nil
  show ?case by simp
next
  case (Cons b m)
  have ne: "\<forall>r\<in>set rows. r \<noteq> []" using Cons.prems by auto
  have tl: "\<forall>r\<in>set (map tl rows). length r = length m" using Cons.prems by auto
  have ih: "cols (length (filter id m)) (map (select m) (map tl rows)) =
              select m (cols (length m) (map tl rows))"
    by (rule Cons.IH [OF tl])
  have rhs: "cols (length (b # m)) rows = map hd rows # cols (length m) (map tl rows)"
    using cols_Suc [OF ne, of "length m"] by simp
  show ?case
  proof (cases b)
    case True
    let ?rows = "map (\<lambda>r. hd r # select m (tl r)) rows"
    have sel: "map (select (b # m)) rows = ?rows"
    proof -
      have "select (b # m) r = hd r # select m (tl r)" if "r \<in> set rows" for r :: "'a list"
        using ne True that by (cases r) auto
      then show ?thesis by simp
    qed
    have ne': "\<forall>r\<in>set ?rows. r \<noteq> []" by simp
    have hd': "map hd ?rows = map hd rows" and tl': "map tl ?rows = map (select m) (map tl rows)"
      by (simp_all add: comp_def)
    have len: "length (filter id (b # m)) = Suc (length (filter id m))"
      using True by simp
    have "cols (length (filter id (b # m))) (map (select (b # m)) rows) =
            cols (Suc (length (filter id m))) ?rows"
      by (simp only: len sel)
    also have "\<dots> = map hd rows # cols (length (filter id m)) (map (select m) (map tl rows))"
      by (simp only: cols_Suc [OF ne'] hd' tl')
    also have "\<dots> = map hd rows # select m (cols (length m) (map tl rows))"
      by (simp only: ih)
    also have "\<dots> = select (b # m) (cols (length (b # m)) rows)"
      unfolding rhs using True by simp
    finally show ?thesis .
  next
    case False
    have sel: "map (select (b # m)) rows = map (select m) (map tl rows)"
    proof -
      have "select (b # m) r = select m (tl r)" if "r \<in> set rows" for r :: "'a list"
        using ne False that by (cases r) auto
      then show ?thesis by simp
    qed
    have len: "length (filter id (b # m)) = length (filter id m)"
      using False by simp
    have "cols (length (filter id (b # m))) (map (select (b # m)) rows) =
            cols (length (filter id m)) (map (select m) (map tl rows))"
      by (simp only: len sel)
    also have "\<dots> = select m (cols (length m) (map tl rows))"
      by (simp only: ih)
    also have "\<dots> = select (b # m) (cols (length (b # m)) rows)"
      unfolding rhs using False by simp
    finally show ?thesis .
  qed
qed

lemma sum_list_of_nat: "sum_list (map (\<lambda>x. (of_nat (f x) :: rat)) xs) = of_nat (sum_list (map f xs))"
  by (induction xs) auto

lemma char_frequencies_sum:
  "sum_list (map snd (char_frequencies cs)) = of_nat (length cs)"
proof -
  let ?ks = "sort_key (of_char :: char \<Rightarrow> nat) (remdups cs)"
  have d: "distinct ?ks" and s: "set ?ks = set cs" by simp_all
  have "sum_list (map (count_list cs) ?ks) = sum (count_list cs) (set ?ks)"
    using d by (simp add: sum_list_distinct_conv_sum_set)
  also have "\<dots> = length cs" using s by (simp add: sum_count_set)
  finally show ?thesis
    by (simp add: char_frequencies_def comp_def sum_list_of_nat)
qed


lemma compute_gap_mask_map:
  "compute_gap_mask (f0 # fs) d g = Inr (map (gap_ok d g (sum_list (map snd f0))) (f0 # fs))"
  by (simp add: compute_gap_mask_def gap_ok_def Let_def)

lemma compute_conservation_mask_map:
  "compute_conservation_mask fs d c = Inr (map (remove_gaps d) fs, map (conservation_ok d c) fs)"
  by (simp add: compute_conservation_mask_def most_conserved_def conservation_ok_def Let_def comp_def)

lemma compute_frequencies_cols:
  "compute_frequencies a = map char_frequencies (cols (position a) (map seq_chars (msa_seqs a)))"
  by (simp add: compute_frequencies_def cols_def column_def comp_def)

lemma map2_conj_map: "map2 (\<and>) (map P xs) (map Q xs) = map (\<lambda>x. P x \<and> Q x) xs"
  by (induction xs) auto

lemma position_apply_mask:
  assumes "well_formed a" and "length m = position a"
  shows "position (apply_mask a m) = (if msa_seqs a = [] then 0 else length (filter id m))"
proof (cases "msa_seqs a")
  case Nil
  then show ?thesis by (simp add: position_def apply_mask_def)
next
  case (Cons s ss)
  then have "length (seq_chars s) = length m"
    using assms by (simp add: well_formed_def position_def)
  then show ?thesis
    using Cons by (simp add: position_def apply_mask_def length_select)
qed

lemma well_formed_apply_mask:
  assumes "well_formed a" and "length m = position a"
  shows "well_formed (apply_mask a m)"
proof -
  have "length (select m (seq_chars s)) = position (apply_mask a m)" if "s \<in> set (msa_seqs a)" for s
  proof -
    have "length (seq_chars s) = length m"
      using assms that by (simp add: well_formed_def list_all_iff)
    moreover have "msa_seqs a \<noteq> []" using that by auto
    ultimately show ?thesis
      using position_apply_mask [OF assms] by (simp add: length_select)
  qed
  then show ?thesis
    by (simp add: well_formed_def list_all_iff apply_mask_def)
qed


lemma length_compute_frequencies: "length (compute_frequencies a) = position a"
  by (simp add: compute_frequencies_def)

lemma mask_Inr_iff:
  "mask a g c = Inr b \<longleftrightarrow>
     0 \<le> g \<and> g \<le> 1 \<and> 0 \<le> c \<and> c \<le> 1 \<and> position a \<noteq> 0 \<and>
     b = apply_mask a (combined_mask a g c) \<and> position b \<noteq> 0"
proof (cases "compute_frequencies a")
  case Nil
  then have "position a = 0"
    using length_compute_frequencies [of a] by simp
  then show ?thesis by (simp add: mask_def)
next
  case (Cons f0 rest)
  then have "position a \<noteq> 0"
    using length_compute_frequencies [of a] by auto
  then show ?thesis
    using Cons
    by (auto simp add: mask_def combined_mask_def compute_gap_mask_map
        compute_conservation_mask_map map2_conj_map Let_def not_less)
qed

lemma column_sum:
  assumes "f \<in> set (compute_frequencies a)"
  shows "sum_list (map snd f) = of_nat (length (msa_seqs a))"
proof -
  obtain col where "col \<in> set (cols (position a) (map seq_chars (msa_seqs a)))"
    and f: "f = char_frequencies col"
    using assms by (auto simp: compute_frequencies_cols)
  then have "length col = length (msa_seqs a)"
    by (auto simp: cols_def)
  then show ?thesis by (simp add: f char_frequencies_sum)
qed

text \<open>
  Claim C8: \<open>mask\<close> is idempotent. For an alignment whose sequences all have the length
  of the alignment, if \<open>mask\<close> succeeds and returns \<open>b\<close>, then \<open>mask\<close> with the same
  thresholds on \<open>b\<close> succeeds and returns \<open>b\<close>: the columns of \<open>b\<close> are retained columns
  of the input, the sequence count is the same, so every column passes both tests again.
\<close>

theorem mask_idempotent:
  assumes wf: "well_formed a" and ok: "mask a g c = Inr b"
  shows "mask b g c = Inr b"
proof -
  let ?F = "compute_frequencies a"
  let ?d = "msa_dtype a"
  let ?n = "of_nat (length (msa_seqs a)) :: rat"
  let ?keep = "\<lambda>f. gap_ok ?d g ?n f \<and> conservation_ok ?d c f"
  let ?m = "combined_mask a g c"
  from ok have rng: "0 \<le> g" "g \<le> 1" "0 \<le> c" "c \<le> 1" and pa: "position a \<noteq> 0"
    and b: "b = apply_mask a ?m" and pb: "position b \<noteq> 0"
    unfolding mask_Inr_iff by blast+
  have Fne: "?F \<noteq> []" using pa length_compute_frequencies [of a] by auto
  then have "hd ?F \<in> set ?F" by simp
  then have na: "sum_list (map snd (hd ?F)) = ?n" by (rule column_sum)
  have m: "?m = map ?keep ?F" by (simp add: combined_mask_def na)
  have lm: "length ?m = position a" by (simp add: m length_compute_frequencies)
  have wfb: "well_formed b" unfolding b by (rule well_formed_apply_mask [OF wf lm])
  have seqs: "msa_seqs a \<noteq> []" using pa by (auto simp: position_def)
  have posb: "position b = length (filter id ?m)"
    unfolding b using position_apply_mask [OF wf lm] seqs by simp
  have db: "msa_dtype b = ?d" and lb: "length (msa_seqs b) = length (msa_seqs a)"
    by (simp_all add: b apply_mask_def)
  have rows: "\<forall>r\<in>set (map seq_chars (msa_seqs a)). length r = length ?m"
    using wf lm by (simp add: well_formed_def list_all_iff)
  have "compute_frequencies b =
          map char_frequencies (cols (length (filter id ?m)) (map (select ?m) (map seq_chars (msa_seqs a))))"
    by (simp add: compute_frequencies_cols posb) (simp add: b apply_mask_def comp_def)
  also have "\<dots> = map char_frequencies (select ?m (cols (length ?m) (map seq_chars (msa_seqs a))))"
    by (simp only: cols_select [OF rows])
  also have "\<dots> = select ?m ?F"
    by (simp only: select_map compute_frequencies_cols lm)
  also have "\<dots> = filter ?keep ?F"
    by (simp only: m select_pred)
  finally have Fb: "compute_frequencies b = filter ?keep ?F" .
  have Fbne: "compute_frequencies b \<noteq> []" using pb length_compute_frequencies [of b] by auto
  then have "hd (compute_frequencies b) \<in> set (compute_frequencies b)" by simp
  then have nb: "sum_list (map snd (hd (compute_frequencies b))) = ?n"
    using column_sum [of _ b] lb by simp
  have mb: "combined_mask b g c = map ?keep (filter ?keep ?F)"
    by (simp add: combined_mask_def nb db) (simp add: Fb)
  have all_true: "\<forall>x\<in>set (combined_mask b g c). x" unfolding mb by auto
  have lmb: "length (combined_mask b g c) = position b"
    by (simp add: combined_mask_def Let_def length_compute_frequencies)
  have "select (combined_mask b g c) (seq_chars s) = seq_chars s" if "s \<in> set (msa_seqs b)" for s
  proof -
    have "length (combined_mask b g c) = length (seq_chars s)"
      using wfb that lmb by (simp add: well_formed_def list_all_iff)
    then show ?thesis using all_true by (rule select_all_true)
  qed
  then have "map (\<lambda>s. s\<lparr>seq_chars := select (combined_mask b g c) (seq_chars s)\<rparr>) (msa_seqs b) = msa_seqs b"
    by (simp add: map_idI)
  then have same: "apply_mask b (combined_mask b g c) = b"
    by (simp add: apply_mask_def)
  show ?thesis
    using rng pb same by (simp add: mask_Inr_iff)
qed









lemma basic_example_mask:
  "mask basic_example (1 / 20) (3 / 10) = Inr basic_expected"
proof -
  have f: "compute_frequencies basic_example =
      [[(CHR ''-'', 2), (CHR ''A'', 1)], [(CHR ''G'', 3)], [(CHR ''A'', 2), (CHR ''C'', 1)]]"
    by (simp add: compute_frequencies_def basic_example_def position_def column_def
        char_frequencies_def upt_conv_Cons)
  have d: "msa_dtype basic_example = DNA" and p: "position basic_example = 3"
    by (simp_all add: basic_example_def position_def)
  have g: "compute_gap_mask
      [[(CHR ''-'', 2), (CHR ''A'', 1)], [(CHR ''G'', 3)], [(CHR ''A'', 2), (CHR ''C'', 1)]]
      DNA (1 / 20) = Inr [False, True, True]"
    by (simp add: compute_gap_mask_def DNA_def dict_get_def np_div_def)
  have c: "map_sum id snd (compute_conservation_mask
      [[(CHR ''-'', 2), (CHR ''A'', 1)], [(CHR ''G'', 3)], [(CHR ''A'', 2), (CHR ''C'', 1)]]
      DNA (3 / 10)) = Inr [True, True, True]"
    by (simp add: compute_conservation_mask_def most_conserved_def remove_gaps_def dict_del_def
        DNA_def conserved_fraction_def np_div_def)
  have r: "apply_mask basic_example [False, True, True] = basic_expected"
    by (simp add: basic_example_def basic_expected_def apply_mask_def select_def)
  have pr: "position basic_expected = 2"
    by (simp add: basic_expected_def position_def)
  from c obtain fs where c': "compute_conservation_mask
      [[(CHR ''-'', 2), (CHR ''A'', 1)], [(CHR ''G'', 3)], [(CHR ''A'', 2), (CHR ''C'', 1)]]
      DNA (3 / 10) = Inr (fs, [True, True, True])"
    by (cases "compute_conservation_mask
      [[(CHR ''-'', 2), (CHR ''A'', 1)], [(CHR ''G'', 3)], [(CHR ''A'', 2), (CHR ''C'', 1)]]
      DNA (3 / 10)") auto
  show ?thesis
    by (simp add: mask_def f d p g c' r pr)
qed

theorem mask_idempotent_witness:
  "well_formed basic_example \<and> mask basic_example (1 / 20) (3 / 10) = Inr basic_expected \<and>
   mask basic_expected (1 / 20) (3 / 10) = Inr basic_expected"
proof -
  have wf: "well_formed basic_example"
    by (simp add: well_formed_def basic_example_def position_def)
  show ?thesis
    using wf basic_example_mask mask_idempotent [OF wf basic_example_mask] by simp
qed

section \<open>Properties of filter_seqs\<close>













text \<open>
  Claim C10: a sequence of length zero raises nothing in \<open>filter_seqs\<close> (numpy's division
  \<open>0 / 0\<close> gives \<open>nan\<close>, and \<open>nan > max_gap_frequency\<close> is false, so neither frequency
  check skips it): whether it is kept is decided by the two length checks alone.
\<close>

theorem filter_seqs_zero_length:
  assumes "seq_chars s = []"
  shows "(retained g n lo hi s \<longleftrightarrow> lo \<le> 0 \<and> (case hi of None \<Rightarrow> True | Some m \<Rightarrow> 0 \<le> m))
       \<and> filter_seqs [s] g n lo hi =
           (if lo \<le> 0 \<and> (case hi of None \<Rightarrow> True | Some m \<Rightarrow> 0 \<le> m) then [(seq_id s, s)] else [])"
proof -
  have r: "retained g n lo hi s \<longleftrightarrow> lo \<le> 0 \<and> (case hi of None \<Rightarrow> True | Some m \<Rightarrow> 0 \<le> m)"
    using assms
    by (cases hi) (auto simp: retained_def Let_def gaps_def np_div_def not_less)
  then show ?thesis
    by (simp add: filter_seqs_def)
qed


theorem filter_seqs_zero_length_witness:
  "seq_chars seq_empty = [] \<and> retained 0 0 0 (Some 1) seq_empty \<and>
   filter_seqs [seq_empty] 0 0 0 (Some 1) = [(''e'', seq_empty)] \<and>
   filter_seqs [seq_empty] 0 0 1 (Some 1) = []"
proof -
  have h: "seq_chars seq_empty = []" by (simp add: seq_empty_def)
  show ?thesis
    using h filter_seqs_zero_length [OF h, of 0 0 0 "Some 1"]
      filter_seqs_zero_length [OF h, of 0 0 1 "Some 1"]
    by (simp add: seq_empty_def)
qed



section \<open>Effects on the inputs\<close>




end
